theory Spec2Isabelle
  imports Main
begin

section \<open>Smart Tutor front end: the upload-and-chat client of app.js\<close>

text \<open>
  The page script keeps three pieces of state: the object \<open>state\<close> (session id, busy
  flag, current files), the DOM nodes collected in \<open>elements\<close>, and one item of the
  tab's sessionStorage. Every handler is an \<open>async\<close> function that suspends at one
  \<open>await fetch(...)\<close>. A handler is embedded as two functions: the part that runs up to
  the suspension and the part that runs when the request settles, with the outcome of the
  request as an argument. The state record carries three fields that the script itself
  does not keep: \<open>requests\<close>, the fetch calls issued so far, \<open>pending\<close>, the fetch
  calls that have not settled yet, and \<open>toasts\<close>, the notifications shown so far.

  Strings are HOL strings, one \<open>char\<close> for one code unit of the JavaScript string.
  Console output, focus changes, scrolling, the character counter and the textarea height
  are not part of the model.

  \<open>addMessage\<close> and \<open>showToast\<close> write their text into \<open>innerHTML\<close> without
  escaping, so a message or a toast can hold elements of its own, and
  \<open>removeTypingIndicator\<close> looks the indicator up by its id in the whole document. What
  the browser's HTML parser and \<open>marked\<close> make of a text is not in the sources; the
  model takes it from the record \<open>page_env\<close>, as far as the id \<open>typing-indicator\<close> is
  concerned. Scripts and event handlers that such markup may carry are not modelled, and
  the static markup of the page, which is not among the sources either, is taken to hold
  no element with that id.
\<close>

subsection \<open>CONFIG\<close>

definition MAX_FILE_SIZE :: nat where
  "MAX_FILE_SIZE = 10 * 1024 * 1024"

definition MAX_MESSAGE_LENGTH :: nat where
  "MAX_MESSAGE_LENGTH = 2000"

subsection \<open>Data\<close>

text \<open>A \<open>File\<close> of the browser: the three properties the script reads.\<close>

record js_file =
  file_name :: string
  file_type :: string
  file_size :: nat

text \<open>The second argument of \<open>showToast\<close>.\<close>

datatype toast_type = Success | Error | Warning | Info

type_synonym toast = "string \<times> toast_type"

text \<open>One entry \<open>{source, page}\<close> of the \<open>context\<close> array of a chat answer.\<close>

record source_ref =
  source :: string
  page :: int

datatype role = Bot | User

text \<open>
  A child of the node \<open>chat-messages\<close>: a message built by \<open>addMessage\<close> (role, text
  and the sources listed under it; the empty list stands for a message without a sources
  block) or the node with id \<open>typing-indicator\<close> built by \<open>showTypingIndicator\<close>.
  The number of a message counts the outermost elements with id \<open>typing-indicator\<close>
  that its markup has created inside it and that are still there.
\<close>

datatype element = Message role string "source_ref list" nat | TypingIndicator

datatype screen = UploadScreen | ChatScreen

datatype pointer_events = PointerNone | PointerAuto

text \<open>The three backend operations, as the fetch calls that reach the network.\<close>

datatype request =
    SessionInitReq
  | UploadReq string "js_file list"
  | ChatReq string string

datatype pending_op = PendingInit | PendingUpload | PendingChat

text \<open>
  What a fetch call settles to. \<open>fetch\<close> rejects (no response at all), or resolves to a
  response whose \<open>ok\<close> is false or true; \<open>response.json()\<close> then rejects (the body is
  not JSON) or resolves to the parsed body. An exception is kept as its message.
\<close>

datatype 'a json = JsonError string | Json 'a

record error_body =
  detail :: "string option"

datatype 'a response =
    FetchRejected string
  | NotOk "error_body json"
  | Ok "'a json"

text \<open>
  The success bodies, with the fields the script reads: \<open>{session_id}\<close>,
  \<open>{welcome_message?}\<close> and \<open>{answer?, context?}\<close> (the field \<open>context\<close> is
  named \<open>sources\<close> here).
\<close>

record session_data =
  session_id :: string

record upload_data =
  welcome_message :: "string option"

record chat_data =
  answer :: "string option"
  sources :: "source_ref list option"

text \<open>
  The first half of an async transport function either returns a value at once, without
  a fetch, or suspends on the fetch it has issued.
\<close>

datatype 'r progress = Returned 'r | Fetching

text \<open>
  The part of the page that the script does not determine: the number of outermost
  elements with id \<open>typing-indicator\<close> that the browser builds from the markup of
  \<open>addMessage\<close> (for a role, a text and its sources; a bot text passes through
  \<open>marked.parse\<close> first) and from the markup of \<open>showToast\<close>, and whether the toast
  container precedes the chat messages in the document.
\<close>

record page_env =
  messageIds :: "role \<Rightarrow> string \<Rightarrow> source_ref list \<Rightarrow> nat"
  toastIds :: "string \<Rightarrow> nat"
  toastsFirst :: bool

record app =
  sessionId :: "string option"
  isProcessing :: bool
  currentFiles :: "js_file list"
  storage :: "string option"
  screen :: screen
  uploadIdle_hidden :: bool
  uploadProcessing_hidden :: bool
  uploadZone_pointerEvents :: pointer_events
  progress :: nat
  progressInterval :: bool
  chatMessages :: "element list"
  messageInput :: string
  sendBtn_disabled :: bool
  toasts :: "toast list"
  toastContainer :: "nat list"
  timeouts :: "upload_data option list"
  requests :: "request list"
  pending :: "pending_op list"
  env :: page_env

text \<open>
  \<open>storage\<close> is the sessionStorage item under \<open>SESSION_STORAGE_KEY\<close>; \<open>toasts\<close> is the
  sequence of \<open>showToast\<close> calls, which records every notification that was shown;
  \<open>toastContainer\<close> holds the toasts that are on the page at the moment, each as the
  number of outermost elements with id \<open>typing-indicator\<close> inside it; \<open>progressInterval\<close>
  tells whether the 300 ms interval of the simulated progress is running; \<open>timeouts\<close>
  holds the callbacks scheduled by \<open>setTimeout(..., 800)\<close> in \<open>handleFileUpload\<close>, each
  with the \<open>result\<close> it closes over.
\<close>

subsection \<open>JavaScript truthiness and string helpers\<close>

text \<open>\<open>null\<close>, \<open>undefined\<close> and the empty string are falsy.\<close>

definition truthy :: "string option \<Rightarrow> bool" where
  "truthy v = (case v of None \<Rightarrow> False | Some x \<Rightarrow> x \<noteq> [])"

text \<open>\<open>v || d\<close> for a string-valued \<open>v\<close>.\<close>

definition or_else :: "string option \<Rightarrow> string \<Rightarrow> string" where
  "or_else v d = (if truthy v then the v else d)"

text \<open>
  \<open>String.prototype.trim\<close>: the white space and line terminator code units that fit
  in a \<open>char\<close> are TAB, LF, VT, FF, CR, SP and NBSP.
\<close>

definition isWhiteSpace :: "char \<Rightarrow> bool" where
  "isWhiteSpace c = (c \<in> {CHR 0x09, CHR 0x0A, CHR 0x0B, CHR 0x0C, CHR 0x0D, CHR 0x20, CHR 0xA0})"

definition trim :: "string \<Rightarrow> string" where
  "trim s = rev (dropWhile isWhiteSpace (rev (dropWhile isWhiteSpace s)))"

text \<open>Decimal rendering of a non-negative integer, as template literals do.\<close>

definition digit :: "nat \<Rightarrow> char" where
  "digit d = ''0123456789'' ! d"

function showNat :: "nat \<Rightarrow> string" where
  "showNat n = (if n < 10 then [digit n] else showNat (n div 10) @ [digit (n mod 10)])"
  by pat_completeness auto
termination
  by (relation "measure id") auto

declare showNat.simps [simp del]

subsection \<open>Utility functions\<close>

definition showToast :: "string \<Rightarrow> toast_type \<Rightarrow> app \<Rightarrow> app" where
  "showToast message type s =
     s\<lparr>toasts := toasts s @ [(message, type)],
       toastContainer := toastContainer s @ [toastIds (env s) message]\<rparr>"

text \<open>
  \<open>formatFileSize\<close> in exact arithmetic: \<open>i\<close> is the integer part of the logarithm to
  base 1024, the quotient is rounded to hundredths, and the number is printed without
  trailing zeros. Index 4 and above of \<open>sizes\<close> is \<open>undefined\<close>. The script computes with
  doubles; it calls the function at \<open>MAX_FILE_SIZE\<close> only, where both agree.
\<close>

function ilog1024 :: "nat \<Rightarrow> nat" where
  "ilog1024 n = (if n < 1024 then 0 else Suc (ilog1024 (n div 1024)))"
  by pat_completeness auto
termination
  by (relation "measure id") auto

declare ilog1024.simps [simp del]

definition sizes :: "nat \<Rightarrow> string" where
  "sizes i = (if i = 0 then ''Bytes'' else if i = 1 then ''KB'' else if i = 2 then ''MB''
              else if i = 3 then ''GB'' else ''undefined'')"

definition showHundredths :: "nat \<Rightarrow> string" where
  "showHundredths q =
     showNat (q div 100) @
       (if q mod 100 = 0 then []
        else if q mod 10 = 0 then ''.'' @ [digit (q mod 100 div 10)]
        else ''.'' @ [digit (q mod 100 div 10), digit (q mod 10)])"

definition formatFileSize :: "nat \<Rightarrow> string" where
  "formatFileSize bytes =
     (if bytes = 0 then ''0 Bytes''
      else let k = 1024;
               i = ilog1024 bytes;
               q = (2 * (bytes * 100) + k ^ i) div (2 * k ^ i)
           in showHundredths q @ '' '' @ sizes i)"

definition switchScreen :: "screen \<Rightarrow> app \<Rightarrow> app" where
  "switchScreen target s = s\<lparr>screen := target\<rparr>"

definition updateProgress :: "nat \<Rightarrow> app \<Rightarrow> app" where
  "updateProgress percent s = s\<lparr>progress := percent\<rparr>"

subsection \<open>API functions\<close>

text \<open>
  \<open>initializeSession\<close> up to its \<open>await fetch\<close>: a truthy stored identifier is
  copied into \<open>state.sessionId\<close> and returned; otherwise the init request goes out.
\<close>

definition initializeSession :: "app \<Rightarrow> string option progress \<times> app" where
  "initializeSession s =
     (let stored = storage s in
      if \<not> truthy stored then
        (Fetching, s\<lparr>requests := requests s @ [SessionInitReq],
                      pending := pending s @ [PendingInit]\<rparr>)
      else (Returned stored, s\<lparr>sessionId := stored\<rparr>))"

text \<open>
  \<open>initializeSession\<close> from the settled request on. A rejected fetch, a response that
  is not ok (the script throws \<open>Failed to initialize session\<close>) and a body that does not
  parse all end in the \<open>catch\<close> block: one error toast, \<open>null\<close> returned.
\<close>

definition initializeSession_settled :: "session_data response \<Rightarrow> app \<Rightarrow> string option \<times> app" where
  "initializeSession_settled r s =
     (case r of
        Ok (Json data) \<Rightarrow>
          (Some (session_id data),
           s\<lparr>storage := Some (session_id data), sessionId := Some (session_id data)\<rparr>)
      | _ \<Rightarrow>
          (None,
           showToast ''Failed to connect to server. Please check if the backend is running.'' Error s))"

text \<open>
  \<open>uploadFiles\<close> up to its fetch. Without a session it shows a toast and returns
  \<open>false\<close>, written \<open>Returned None\<close>.
\<close>

definition uploadFiles :: "js_file list \<Rightarrow> app \<Rightarrow> upload_data option progress \<times> app" where
  "uploadFiles files s =
     (if \<not> truthy (sessionId s) then
        (Returned None, showToast ''No active session. Please refresh the page.'' Error s)
      else
        (Fetching, s\<lparr>requests := requests s @ [UploadReq (the (sessionId s)) files],
                      pending := pending s @ [PendingUpload]\<rparr>))"

text \<open>
  \<open>uploadFiles\<close> from the settled request on: \<open>Inl m\<close> is an exception with message
  \<open>m\<close> (the \<open>catch\<close> block logs it and throws it again), \<open>Inr\<close> the returned data.
\<close>

definition uploadFiles_settled :: "upload_data response \<Rightarrow> string + upload_data option" where
  "uploadFiles_settled r =
     (case r of
        FetchRejected m \<Rightarrow> Inl m
      | NotOk (JsonError m) \<Rightarrow> Inl m
      | NotOk (Json errorData) \<Rightarrow> Inl (or_else (detail errorData) ''Upload failed'')
      | Ok (JsonError m) \<Rightarrow> Inl m
      | Ok (Json data) \<Rightarrow> Inr (Some data))"

text \<open>\<open>sendChatMessage\<close>, in the same two halves; \<open>Returned None\<close> is \<open>null\<close>.\<close>

definition sendChatMessage :: "string \<Rightarrow> app \<Rightarrow> chat_data option progress \<times> app" where
  "sendChatMessage query s =
     (if \<not> truthy (sessionId s) then
        (Returned None, showToast ''No active session. Please refresh the page.'' Error s)
      else
        (Fetching, s\<lparr>requests := requests s @ [ChatReq (the (sessionId s)) query],
                      pending := pending s @ [PendingChat]\<rparr>))"

definition sendChatMessage_settled :: "chat_data response \<Rightarrow> string + chat_data option" where
  "sendChatMessage_settled r =
     (case r of
        FetchRejected m \<Rightarrow> Inl m
      | NotOk (JsonError m) \<Rightarrow> Inl m
      | NotOk (Json errorData) \<Rightarrow> Inl (or_else (detail errorData) ''Chat request failed'')
      | Ok (JsonError m) \<Rightarrow> Inl m
      | Ok (Json data) \<Rightarrow> Inr (Some data))"

subsection \<open>Chat functions\<close>

text \<open>
  \<open>addMessage(role, content, context = null)\<close> appends one node. The sources block is
  written only for a context that is neither \<open>null\<close> nor empty. The markdown rendering
  of a bot message is left to \<open>marked\<close>; the node keeps the text, and the number of
  elements with id \<open>typing-indicator\<close> that its markup brings.
\<close>

definition addMessage :: "role \<Rightarrow> string \<Rightarrow> source_ref list option \<Rightarrow> app \<Rightarrow> app" where
  "addMessage r content ctx s =
     (let shown = (case ctx of None \<Rightarrow> [] | Some c \<Rightarrow> c)
      in s\<lparr>chatMessages := chatMessages s @
            [Message r content shown (messageIds (env s) r content shown)]\<rparr>)"

definition showTypingIndicator :: "app \<Rightarrow> app" where
  "showTypingIndicator s = s\<lparr>chatMessages := chatMessages s @ [TypingIndicator]\<rparr>"

text \<open>
  \<open>document.getElementById('typing-indicator')\<close> finds the first element with the id
  in document order, and \<open>remove\<close> takes it out with all it contains. Among the chat
  messages this is the indicator node, unless an earlier message still holds an element
  with the id: then that element goes, and the message holds one less. Among the toasts
  it is an element inside the first toast that holds one.
\<close>

fun take_first_id :: "element list \<Rightarrow> element list option" where
  "take_first_id [] = None"
| "take_first_id (TypingIndicator # es) = Some es"
| "take_first_id (Message r c shown k # es) =
     (if k > 0 then Some (Message r c shown (k - 1) # es)
      else map_option ((#) (Message r c shown k)) (take_first_id es))"

fun take_first_toast_id :: "nat list \<Rightarrow> nat list option" where
  "take_first_toast_id [] = None"
| "take_first_toast_id (k # ks) =
     (if k > 0 then Some ((k - 1) # ks)
      else map_option ((#) k) (take_first_toast_id ks))"

definition removeTypingIndicator :: "app \<Rightarrow> app" where
  "removeTypingIndicator s =
     (if toastsFirst (env s) then
        (case take_first_toast_id (toastContainer s) of
           Some ts \<Rightarrow> s\<lparr>toastContainer := ts\<rparr>
         | None \<Rightarrow>
             (case take_first_id (chatMessages s) of
                Some es \<Rightarrow> s\<lparr>chatMessages := es\<rparr>
              | None \<Rightarrow> s))
      else
        (case take_first_id (chatMessages s) of
           Some es \<Rightarrow> s\<lparr>chatMessages := es\<rparr>
         | None \<Rightarrow>
             (case take_first_toast_id (toastContainer s) of
                Some ts \<Rightarrow> s\<lparr>toastContainer := ts\<rparr>
              | None \<Rightarrow> s)))"

text \<open>
  The two fixed bot texts of \<open>handleSendMessage\<close>. The second starts with the warning
  sign U+26A0 U+FE0F, written here as its UTF-8 bytes.
\<close>

definition fallback_apology :: string where
  "fallback_apology = ''I apologize, but I couldn't generate a response. Please try again.''"

definition connection_error :: string where
  "connection_error =
     [CHR 0xE2, CHR 0x9A, CHR 0xA0, CHR 0xEF, CHR 0xB8, CHR 0x8F] @
     '' I'm having trouble connecting to the server. Please check your connection and try again.''"

text \<open>
  \<open>handleSendMessage\<close> from the settled \<open>await sendChatMessage(message)\<close> on: the
  \<open>try\<close> body after the await, the \<open>catch\<close> block, and the \<open>finally\<close> block.
\<close>

definition handleSendMessage_resume :: "string + chat_data option \<Rightarrow> app \<Rightarrow> app" where
  "handleSendMessage_resume outcome s =
     (let s' =
        (case outcome of
           Inr response \<Rightarrow>
             (let s1 = removeTypingIndicator s in
              case response of
                None \<Rightarrow> addMessage Bot fallback_apology None s1
              | Some data \<Rightarrow>
                  if truthy (answer data) then
                    addMessage Bot (the (answer data))
                      (Some (case sources data of None \<Rightarrow> [] | Some c \<Rightarrow> c)) s1
                  else addMessage Bot fallback_apology None s1)
         | Inl message \<Rightarrow>
             showToast ''Failed to send message. Please try again.'' Error
               (addMessage Bot connection_error None (removeTypingIndicator s)))
      in s'\<lparr>isProcessing := False, sendBtn_disabled := False\<rparr>)"

definition handleSendMessage :: "app \<Rightarrow> app" where
  "handleSendMessage s =
     (let message = trim (messageInput s) in
      if message = [] \<or> isProcessing s then s
      else if length message > MAX_MESSAGE_LENGTH then
        showToast (''Message exceeds '' @ showNat MAX_MESSAGE_LENGTH @ '' characters'') Warning s
      else
        let s1 = s\<lparr>isProcessing := True, sendBtn_disabled := True\<rparr>;
            s2 = addMessage User message None s1;
            s3 = s2\<lparr>messageInput := []\<rparr>;
            s4 = showTypingIndicator s3
        in case sendChatMessage message s4 of
             (Returned response, s5) \<Rightarrow> handleSendMessage_resume (Inr response) s5
           | (Fetching, s5) \<Rightarrow> s5)"

text \<open>\<open>clearChat\<close>, with the answer of \<open>confirm\<close> as an argument.\<close>

definition clearChat :: "bool \<Rightarrow> app \<Rightarrow> app" where
  "clearChat confirmed s =
     (if confirmed then showToast ''Chat cleared'' Info (s\<lparr>chatMessages := []\<rparr>) else s)"

subsection \<open>File upload handlers\<close>

text \<open>The messages \<open>validateFiles\<close> pushes for one file, in the order of its two checks.\<close>

definition file_errors :: "js_file \<Rightarrow> string list" where
  "file_errors f =
     (if file_type f \<noteq> ''application/pdf''
      then [file_name f @ '': Only PDF files are allowed''] else []) @
     (if file_size f > MAX_FILE_SIZE
      then [file_name f @ '': File size exceeds '' @ formatFileSize MAX_FILE_SIZE @ '' limit'']
      else [])"

definition validateFiles :: "js_file list \<Rightarrow> string list" where
  "validateFiles files = concat (map file_errors files)"

definition welcome_fallback :: string where
  "welcome_fallback =
     ''I've finished processing your documents. What would you like to explore?''"

definition showWelcomeMessage :: "js_file list \<Rightarrow> string option \<Rightarrow> app \<Rightarrow> app" where
  "showWelcomeMessage files welcomeMessage s =
     addMessage Bot (or_else welcomeMessage welcome_fallback) None s"

text \<open>
  \<open>handleFileUpload\<close> from the settled \<open>await uploadFiles(files)\<close> on. The success
  branch schedules the 800 ms callback, the \<open>catch\<close> branch shows
  \<open>error.message || ...\<close> and resets the upload zone, and \<open>finally\<close> clears the flag.
\<close>

definition handleFileUpload_resume :: "string + upload_data option \<Rightarrow> app \<Rightarrow> app" where
  "handleFileUpload_resume outcome s =
     (let s' =
        (case outcome of
           Inr result \<Rightarrow>
             (let s1 = updateProgress 100 (s\<lparr>progressInterval := False\<rparr>);
                  s2 = showToast (''Successfully processed '' @
                         showNat (length (currentFiles s1)) @ '' file(s)'') Success s1
              in s2\<lparr>timeouts := timeouts s2 @ [result]\<rparr>)
         | Inl message \<Rightarrow>
             (let s1 = s\<lparr>progressInterval := False\<rparr>;
                  s2 = showToast (or_else (Some message)
                         ''Failed to upload files. Please try again.'') Error s1;
                  s3 = s2\<lparr>uploadIdle_hidden := False, uploadProcessing_hidden := True,
                          uploadZone_pointerEvents := PointerAuto\<rparr>
              in updateProgress 0 s3))
      in s'\<lparr>isProcessing := False\<rparr>)"

definition handleFileUpload :: "js_file list \<Rightarrow> app \<Rightarrow> app" where
  "handleFileUpload files s =
     (if isProcessing s then s
      else
        let errors = validateFiles files in
        if length errors > 0 then foldl (\<lambda>s' error. showToast error Error s') s errors
        else
          let s1 = s\<lparr>isProcessing := True, currentFiles := files\<rparr>;
              s2 = s1\<lparr>uploadIdle_hidden := True, uploadProcessing_hidden := False,
                      uploadZone_pointerEvents := PointerNone\<rparr>;
              s3 = s2\<lparr>progressInterval := True\<rparr>
          in case uploadFiles files s3 of
               (Returned result, s4) \<Rightarrow> handleFileUpload_resume (Inr result) s4
             | (Fetching, s4) \<Rightarrow> s4)"

text \<open>
  The callback given to \<open>setTimeout\<close>; \<open>result.welcome_message\<close> is \<open>undefined\<close>
  when \<open>result\<close> is \<open>false\<close>.
\<close>

definition timeout_callback :: "upload_data option \<Rightarrow> app \<Rightarrow> app" where
  "timeout_callback result s =
     showWelcomeMessage (currentFiles s)
       (case result of None \<Rightarrow> None | Some data \<Rightarrow> welcome_message data)
       (switchScreen ChatScreen s)"

subsection \<open>Initialization\<close>

definition initializeApp_resume :: "string option \<Rightarrow> app \<Rightarrow> app" where
  "initializeApp_resume sid s =
     (if truthy sid then showToast ''Welcome to Smart Tutor AI!'' Success s
      else showToast ''Failed to initialize. Please refresh the page.'' Error s)"

definition initializeApp :: "app \<Rightarrow> app" where
  "initializeApp s =
     (case initializeSession s of
        (Returned sid, s1) \<Rightarrow> initializeApp_resume sid s1
      | (Fetching, s1) \<Rightarrow> s1)"

subsection \<open>Event listeners and the event loop\<close>

text \<open>
  The events the page reacts to: the listeners registered by the script, the settling of
  a pending request (by its position in \<open>pending\<close>), the firing of a scheduled
  callback, and a toast leaving the page (its timer has run out or its close button was
  clicked). An event that cannot occur in a state (a reply to a request that is not
  pending) leaves the state as it is.
\<close>

datatype event =
    DomReady
  | SessionReply nat "session_data response"
  | FileInputChange "js_file list"
  | Drop "js_file list"
  | UploadReply nat "upload_data response"
  | TimeoutFired nat
  | InputTyped string
  | SendClick
  | ChatReply nat "chat_data response"
  | ClearClick bool
  | ToastRemoved nat

definition remove_nth :: "nat \<Rightarrow> 'a list \<Rightarrow> 'a list" where
  "remove_nth i xs = take i xs @ drop (Suc i) xs"

definition awaits :: "pending_op \<Rightarrow> nat \<Rightarrow> app \<Rightarrow> bool" where
  "awaits op i s = (i < length (pending s) \<and> pending s ! i = op)"

definition settle :: "nat \<Rightarrow> app \<Rightarrow> app" where
  "settle i s = s\<lparr>pending := remove_nth i (pending s)\<rparr>"

fun step :: "event \<Rightarrow> app \<Rightarrow> app" where
  "step DomReady s = initializeApp s"
| "step (SessionReply i r) s =
     (if awaits PendingInit i s
      then (case initializeSession_settled r (settle i s) of (sid, s1) \<Rightarrow> initializeApp_resume sid s1)
      else s)"
| "step (FileInputChange files) s =
     (if length files > 0 then handleFileUpload files s else s)"
| "step (Drop files) s =
     (if length files > 0 \<and> \<not> isProcessing s then handleFileUpload files s else s)"
| "step (UploadReply i r) s =
     (if awaits PendingUpload i s
      then handleFileUpload_resume (uploadFiles_settled r) (settle i s)
      else s)"
| "step (TimeoutFired i) s =
     (if i < length (timeouts s)
      then timeout_callback (timeouts s ! i) (s\<lparr>timeouts := remove_nth i (timeouts s)\<rparr>)
      else s)"
| "step (InputTyped text) s = s\<lparr>messageInput := text\<rparr>"
| "step SendClick s = handleSendMessage s"
| "step (ChatReply i r) s =
     (if awaits PendingChat i s
      then handleSendMessage_resume (sendChatMessage_settled r) (settle i s)
      else s)"
| "step (ClearClick confirmed) s = clearChat confirmed s"
| "step (ToastRemoved i) s = s\<lparr>toastContainer := remove_nth i (toastContainer s)\<rparr>"

definition run :: "event list \<Rightarrow> app \<Rightarrow> app" where
  "run evs s = foldl (\<lambda>s' e. step e s') s evs"

text \<open>The processing operations (upload, chat send) among the pending requests.\<close>

definition in_flight :: "app \<Rightarrow> pending_op list" where
  "in_flight s = filter (\<lambda>p. p \<noteq> PendingInit) (pending s)"

text \<open>
  A sample environment. It counts the literal elements \<open><i id=typing-indicator></i>\<close>
  of a text and puts the toast container after the chat messages. On a text with no
  other markup, which is all the text the concrete states below show, this is what a
  browser builds.
\<close>

fun count_injected :: "string \<Rightarrow> nat" where
  "count_injected [] = 0"
| "count_injected (c # cs) =
     (if c = CHR ''<''
      then (if take 26 cs = ''i id=typing-indicator></i>'' then 1 else 0)
      else 0) + count_injected cs"

definition sample_env :: page_env where
  "sample_env =
     \<lparr>messageIds = (\<lambda>r content shown. count_injected content),
      toastIds = count_injected, toastsFirst = False\<rparr>"

text \<open>
  The state of a freshly loaded page in the sample environment, with the object
  \<open>state\<close> as the script initialises it. The markup is not among the sources; the
  upload screen in its idle view, an empty transcript and no toast are taken for the DOM
  part.
\<close>

definition fresh :: "string option \<Rightarrow> app" where
  "fresh stored =
     \<lparr>sessionId = None, isProcessing = False, currentFiles = [], storage = stored,
      screen = UploadScreen, uploadIdle_hidden = False, uploadProcessing_hidden = True,
      uploadZone_pointerEvents = PointerAuto, progress = 0, progressInterval = False,
      chatMessages = [], messageInput = [], sendBtn_disabled = False, toasts = [],
      toastContainer = [], timeouts = [], requests = [], pending = [],
      env = sample_env\<rparr>"

subsection \<open>Predicates of the statements\<close>

text \<open>
  A request has failed when no success body came back: the fetch was rejected
  (transport failure), the response was not ok (application failure), or the body of an
  ok response did not parse. The transport functions throw in all three cases.
\<close>

definition request_failed :: "'a response \<Rightarrow> bool" where
  "request_failed r = (case r of Ok (Json data) \<Rightarrow> False | _ \<Rightarrow> True)"

text \<open>
  The exclusion kept by the busy flag: no upload or chat request is pending, or exactly
  one is and the flag is set.
\<close>

definition exclusive :: "app \<Rightarrow> bool" where
  "exclusive s = (in_flight s = [] \<or> (isProcessing s \<and> length (in_flight s) = 1))"

text \<open>
  The messages of a transcript in their order, each as role, text and sources: the
  indicator nodes and the counts of elements inside the messages are left out.
\<close>

fun messages_of :: "element list \<Rightarrow> (role \<times> string \<times> source_ref list) list" where
  "messages_of [] = []"
| "messages_of (TypingIndicator # es) = messages_of es"
| "messages_of (Message r c shown k # es) = (r, c, shown) # messages_of es"

text \<open>
  A node that \<open>getElementById('typing-indicator')\<close> can hit, and a page on which it can
  hit none: no indicator node is in the transcript, and no message and no toast holds an
  element with the id.
\<close>

fun carrier :: "element \<Rightarrow> bool" where
  "carrier TypingIndicator = True"
| "carrier (Message r c shown k) = (k > 0)"

definition no_carrier :: "app \<Rightarrow> bool" where
  "no_carrier s =
     (list_all (\<lambda>e. \<not> carrier e) (chatMessages s) \<and> list_all (\<lambda>k. k = 0) (toastContainer s))"

text \<open>
  An environment in which no text brings an element with the id of the typing indicator;
  a node that holds no such element inside (the indicator node itself counts as inert);
  the number of indicator nodes in the transcript and of pending chat requests; and the
  invariant of the event loop in such an environment.
\<close>

definition plain_env :: "page_env \<Rightarrow> bool" where
  "plain_env e = ((\<forall>r c shown. messageIds e r c shown = 0) \<and> (\<forall>m. toastIds e m = 0))"

fun inert :: "element \<Rightarrow> bool" where
  "inert TypingIndicator = True"
| "inert (Message r c shown k) = (k = 0)"

definition calm :: "app \<Rightarrow> bool" where
  "calm s = (plain_env (env s) \<and> list_all inert (chatMessages s)
     \<and> list_all (\<lambda>k. k = 0) (toastContainer s))"

definition indicators :: "app \<Rightarrow> nat" where
  "indicators s = length (filter (\<lambda>e. e = TypingIndicator) (chatMessages s))"

definition pending_chats :: "app \<Rightarrow> nat" where
  "pending_chats s = length (filter (\<lambda>p. p = PendingChat) (pending s))"

definition tidy :: "app \<Rightarrow> bool" where
  "tidy s = (exclusive s \<and> calm s \<and> indicators s \<le> pending_chats s)"

subsection \<open>Concrete inputs\<close>

text \<open>Files and states at which the theorems below are instantiated.\<close>

definition pdf5 :: js_file where
  "pdf5 = \<lparr>file_name = ''ch3.pdf'', file_type = ''application/pdf'',
            file_size = 5 * 1024 * 1024\<rparr>"

definition docx :: js_file where
  "docx = \<lparr>file_name = ''notes.docx'', file_type = ''application/msword'',
            file_size = 11 * 1024 * 1024\<rparr>"

text \<open>
  A tab that holds the stored identifier \<open>abc\<close>, after \<open>initializeApp\<close> has run, and
  the same tab with a question typed into the message box.
\<close>

definition ready :: app where
  "ready = step DomReady (fresh (Some ''abc''))"


text \<open>
  Two inputs of 2001 code units: one letter followed by 2000 spaces, and 2001 letters.
\<close>

definition padded_input :: string where
  "padded_input = CHR ''a'' # replicate 2000 (CHR '' '')"

definition long_input :: string where
  "long_input = replicate 2001 (CHR ''a'')"


text \<open>A message that carries an element with the id of the typing indicator.\<close>

definition injecting_input :: string where
  "injecting_input = ''<i id=typing-indicator></i>x''"

section \<open>Properties\<close>

subsection \<open>Auxiliary facts\<close>

lemma foldl_showToast:
  "foldl (\<lambda>s' e. showToast e t s') s es =
     s\<lparr>toasts := toasts s @ map (\<lambda>e. (e, t)) es,
       toastContainer := toastContainer s @ map (toastIds (env s)) es\<rparr>"
  by (induction es arbitrary: s) (simp_all add: showToast_def)

lemma file_errors_Nil_iff:
  "file_errors f = [] \<longleftrightarrow> file_type f = ''application/pdf'' \<and> file_size f \<le> MAX_FILE_SIZE"
  by (auto simp: file_errors_def)

lemma validateFiles_Nil_iff:
  "validateFiles files = [] \<longleftrightarrow>
     (\<forall>f \<in> set files. file_type f = ''application/pdf'' \<and> file_size f \<le> MAX_FILE_SIZE)"
  by (simp add: validateFiles_def file_errors_Nil_iff)

lemma handleFileUpload_busy: "isProcessing s \<Longrightarrow> handleFileUpload files s = s"
  by (simp add: handleFileUpload_def)

lemma handleFileUpload_invalid:
  "validateFiles files \<noteq> [] \<Longrightarrow> \<not> isProcessing s \<Longrightarrow>
   handleFileUpload files s =
     s\<lparr>toasts := toasts s @ map (\<lambda>e. (e, Error)) (validateFiles files),
       toastContainer := toastContainer s @ map (toastIds (env s)) (validateFiles files)\<rparr>"
  by (simp add: handleFileUpload_def Let_def foldl_showToast)

lemma handleSendMessage_dropped:
  "trim (messageInput s) = [] \<or> isProcessing s \<Longrightarrow> handleSendMessage s = s"
  by (auto simp add: handleSendMessage_def)

lemma handleSendMessage_too_long:
  assumes "\<not> isProcessing s" and "length (trim (messageInput s)) > MAX_MESSAGE_LENGTH"
  shows "handleSendMessage s = showToast ''Message exceeds 2000 characters'' Warning s"
proof -
  have "showNat MAX_MESSAGE_LENGTH = ''2000''"
    by (simp add: MAX_MESSAGE_LENGTH_def showNat.simps digit_def)
  with assms show ?thesis
    by (auto simp add: handleSendMessage_def Let_def)
qed

lemma handleSendMessage_sent:
  assumes "\<not> isProcessing s" and "trim (messageInput s) \<noteq> []"
    and "length (trim (messageInput s)) \<le> MAX_MESSAGE_LENGTH" and "truthy (sessionId s)"
  shows "handleSendMessage s =
     s\<lparr>isProcessing := True, sendBtn_disabled := True,
       chatMessages := chatMessages s @
         [Message User (trim (messageInput s)) []
            (messageIds (env s) User (trim (messageInput s)) []),
          TypingIndicator],
       messageInput := [],
       requests := requests s @ [ChatReq (the (sessionId s)) (trim (messageInput s))],
       pending := pending s @ [PendingChat]\<rparr>"
  using assms
  by (simp add: handleSendMessage_def Let_def sendChatMessage_def addMessage_def
      showTypingIndicator_def)

lemma handleSendMessage_no_session:
  assumes "\<not> isProcessing s" and "trim (messageInput s) \<noteq> []"
    and "length (trim (messageInput s)) \<le> MAX_MESSAGE_LENGTH" and "\<not> truthy (sessionId s)"
  shows "handleSendMessage s =
     handleSendMessage_resume (Inr None)
       (showToast ''No active session. Please refresh the page.'' Error
         (s\<lparr>isProcessing := True, sendBtn_disabled := True, messageInput := [],
            chatMessages := chatMessages s @
              [Message User (trim (messageInput s)) []
                 (messageIds (env s) User (trim (messageInput s)) []),
               TypingIndicator]\<rparr>))"
  using assms
  by (simp add: handleSendMessage_def Let_def sendChatMessage_def addMessage_def
      showTypingIndicator_def)

lemma sendChatMessage_settled_failed:
  "request_failed r \<Longrightarrow> \<exists>m. sendChatMessage_settled r = Inl m"
  by (auto simp: request_failed_def sendChatMessage_settled_def
      split: response.splits json.splits)

lemma uploadFiles_settled_failed:
  "request_failed r \<Longrightarrow> \<exists>m. uploadFiles_settled r = Inl m"
  by (auto simp: request_failed_def uploadFiles_settled_def
      split: response.splits json.splits)

lemma trim_letters:
  "\<not> isWhiteSpace c \<Longrightarrow> trim (replicate n c) = replicate n c"
  by (simp add: trim_def dropWhile_replicate)

lemma trim_padded:
  "\<not> isWhiteSpace c \<Longrightarrow> trim (c # replicate n (CHR '' '')) = [c]"
  by (simp add: trim_def dropWhile_append isWhiteSpace_def)


text \<open>What \<open>removeTypingIndicator\<close> leaves alone, and when it hits the indicator.\<close>

lemma removeTypingIndicator_fields [simp]:
  "pending (removeTypingIndicator s) = pending s"
  "isProcessing (removeTypingIndicator s) = isProcessing s"
  "requests (removeTypingIndicator s) = requests s"
  "toasts (removeTypingIndicator s) = toasts s"
  "env (removeTypingIndicator s) = env s"
  by (simp_all add: removeTypingIndicator_def split: option.splits)

lemma messages_of_append [simp]:
  "messages_of (xs @ ys) = messages_of xs @ messages_of ys"
  by (induction xs rule: messages_of.induct) simp_all

lemma take_first_id_messages:
  "take_first_id es = Some es' \<Longrightarrow> messages_of es' = messages_of es"
  by (induction es arbitrary: es' rule: take_first_id.induct) (auto split: if_splits)

lemma messages_of_removeTypingIndicator [simp]:
  "messages_of (chatMessages (removeTypingIndicator s)) = messages_of (chatMessages s)"
  by (auto simp add: removeTypingIndicator_def take_first_id_messages split: option.splits)

lemma take_first_id_hit:
  "list_all (\<lambda>e. \<not> carrier e) es \<Longrightarrow>
   take_first_id (es @ TypingIndicator # rest) = Some (es @ rest)"
  by (induction es rule: take_first_id.induct) simp_all

lemma take_first_toast_id_none:
  "list_all (\<lambda>k. k = 0) ts \<Longrightarrow> take_first_toast_id ts = None"
  by (induction ts) simp_all

lemma removeTypingIndicator_hit:
  assumes "list_all (\<lambda>k. k = 0) (toastContainer s)"
    and "chatMessages s = es @ TypingIndicator # rest"
    and "list_all (\<lambda>e. \<not> carrier e) es"
  shows "removeTypingIndicator s = s\<lparr>chatMessages := es @ rest\<rparr>"
  using assms
  by (simp add: removeTypingIndicator_def take_first_id_hit take_first_toast_id_none)

text \<open>The second half of \<open>handleSendMessage\<close>, field by field.\<close>

lemma chat_resume_fields [simp]:
  "pending (handleSendMessage_resume outcome s) = pending s"
  "requests (handleSendMessage_resume outcome s) = requests s"
  "env (handleSendMessage_resume outcome s) = env s"
  "isProcessing (handleSendMessage_resume outcome s) = False"
  "sendBtn_disabled (handleSendMessage_resume outcome s) = False"
  by (simp_all add: handleSendMessage_resume_def Let_def addMessage_def showToast_def
      split: sum.splits option.splits)

lemma chat_resume_failed:
  "toasts (handleSendMessage_resume (Inl m) s) =
     toasts s @ [(''Failed to send message. Please try again.'', Error)]"
  "messages_of (chatMessages (handleSendMessage_resume (Inl m) s)) =
     messages_of (chatMessages s) @ [(Bot, connection_error, [])]"
  "chatMessages (handleSendMessage_resume (Inl m) s) =
     chatMessages (removeTypingIndicator s) @
       [Message Bot connection_error [] (messageIds (env s) Bot connection_error [])]"
  by (simp_all add: handleSendMessage_resume_def Let_def addMessage_def showToast_def)


lemma count_injected_plain: "CHR ''<'' \<notin> set cs \<Longrightarrow> count_injected cs = 0"
  by (induction cs) auto

lemma handleFileUpload_sent:
  assumes "\<not> isProcessing s" and "validateFiles files = []" and "truthy (sessionId s)"
  shows "handleFileUpload files s =
     s\<lparr>isProcessing := True, currentFiles := files, uploadIdle_hidden := True,
       uploadProcessing_hidden := False, uploadZone_pointerEvents := PointerNone,
       progressInterval := True,
       requests := requests s @ [UploadReq (the (sessionId s)) files],
       pending := pending s @ [PendingUpload]\<rparr>"
  using assms by (simp add: handleFileUpload_def Let_def uploadFiles_def)

lemma upload_resume_ok:
  "handleFileUpload_resume (Inr result) s =
     s\<lparr>progressInterval := False, progress := 100,
       toasts := toasts s @
         [(''Successfully processed '' @ showNat (length (currentFiles s)) @ '' file(s)'',
           Success)],
       toastContainer := toastContainer s @
         [toastIds (env s)
            (''Successfully processed '' @ showNat (length (currentFiles s)) @ '' file(s)'')],
       timeouts := timeouts s @ [result], isProcessing := False\<rparr>"
  by (simp add: handleFileUpload_resume_def Let_def updateProgress_def showToast_def)

lemma upload_resume_failed:
  "handleFileUpload_resume (Inl m) s =
     s\<lparr>progressInterval := False,
       toasts := toasts s @
         [(if m = [] then ''Failed to upload files. Please try again.'' else m, Error)],
       toastContainer := toastContainer s @
         [toastIds (env s)
            (if m = [] then ''Failed to upload files. Please try again.'' else m)],
       uploadIdle_hidden := False, uploadProcessing_hidden := True,
       uploadZone_pointerEvents := PointerAuto, progress := 0, isProcessing := False\<rparr>"
  by (simp add: handleFileUpload_resume_def Let_def updateProgress_def showToast_def
      or_else_def truthy_def)





text \<open>The exclusion is kept by every event.\<close>

lemma filter_remove_nth_out:
  assumes "i < length xs" and "\<not> P (xs ! i)"
  shows "filter P (remove_nth i xs) = filter P xs"
proof -
  have "xs = take i xs @ xs ! i # drop (Suc i) xs"
    using assms(1) by (rule id_take_nth_drop)
  then have "filter P xs = filter P (take i xs) @ filter P (xs ! i # drop (Suc i) xs)"
    by (metis filter_append)
  with assms(2) show ?thesis
    by (simp add: remove_nth_def)
qed

lemma filter_remove_nth_in:
  assumes "i < length xs" and "P (xs ! i)"
  shows "length (filter P xs) = Suc (length (filter P (remove_nth i xs)))"
proof -
  have "xs = take i xs @ xs ! i # drop (Suc i) xs"
    using assms(1) by (rule id_take_nth_drop)
  then have "filter P xs = filter P (take i xs) @ filter P (xs ! i # drop (Suc i) xs)"
    by (metis filter_append)
  with assms(2) show ?thesis
    by (simp add: remove_nth_def)
qed

lemma settle_init:
  "awaits PendingInit i s \<Longrightarrow> in_flight (settle i s) = in_flight s"
  by (simp add: awaits_def settle_def in_flight_def filter_remove_nth_out)

lemma settle_processing:
  assumes "awaits op i s" and "op \<noteq> PendingInit" and "exclusive s"
  shows "in_flight (settle i s) = []"
proof -
  from assms(1,2) have
    "length (in_flight s) = Suc (length (in_flight (settle i s)))"
    by (simp add: awaits_def settle_def in_flight_def filter_remove_nth_in)
  with assms(3) show ?thesis
    by (auto simp add: exclusive_def)
qed

lemma settle_isProcessing [simp]: "isProcessing (settle i s) = isProcessing s"
  by (simp add: settle_def)

lemma upload_resume_fields [simp]:
  "pending (handleFileUpload_resume outcome s) = pending s"
  "isProcessing (handleFileUpload_resume outcome s) = False"
  by (cases outcome; simp add: upload_resume_ok upload_resume_failed)+

lemma in_flight_resume [simp]:
  "in_flight (handleFileUpload_resume uo s) = in_flight s"
  "in_flight (handleSendMessage_resume co s) = in_flight s"
  by (simp_all add: in_flight_def)

lemma exclusive_handleFileUpload:
  assumes "exclusive s"
  shows "exclusive (handleFileUpload files s)"
proof (cases "isProcessing s")
  case True
  with assms show ?thesis by (simp add: handleFileUpload_busy)
next
  case False
  with assms have idle: "in_flight s = []"
    by (auto simp add: exclusive_def)
  show ?thesis
  proof (cases "validateFiles files = []")
    case invalid: False
    with False idle show ?thesis
      by (simp add: handleFileUpload_invalid exclusive_def in_flight_def)
  next
    case valid: True
    show ?thesis
    proof (cases "truthy (sessionId s)")
      case True
      with False valid idle show ?thesis
        by (simp add: handleFileUpload_sent exclusive_def in_flight_def)
    next
      case no: False
      with False valid idle show ?thesis
        by (simp add: handleFileUpload_def Let_def uploadFiles_def exclusive_def)
          (simp add: in_flight_def showToast_def)
    qed
  qed
qed

lemma exclusive_handleSendMessage:
  assumes "exclusive s"
  shows "exclusive (handleSendMessage s)"
proof (cases "trim (messageInput s) = [] \<or> isProcessing s")
  case True
  with assms show ?thesis by (simp add: handleSendMessage_dropped)
next
  case False
  with assms have idle: "in_flight s = []"
    by (auto simp add: exclusive_def)
  show ?thesis
  proof (cases "length (trim (messageInput s)) > MAX_MESSAGE_LENGTH")
    case True
    with False idle show ?thesis
      by (simp add: handleSendMessage_too_long showToast_def exclusive_def in_flight_def)
  next
    case short: False
    show ?thesis
    proof (cases "truthy (sessionId s)")
      case True
      with False short idle show ?thesis
        by (simp add: handleSendMessage_sent exclusive_def in_flight_def)
    next
      case no: False
      with False short idle show ?thesis
        by (simp add: handleSendMessage_no_session exclusive_def)
          (simp add: in_flight_def showToast_def)
    qed
  qed
qed

lemma initializeApp_fields:
  "in_flight (initializeApp s) = in_flight s" "isProcessing (initializeApp s) = isProcessing s"
  by (simp_all add: initializeApp_def initializeSession_def Let_def initializeApp_resume_def
      showToast_def in_flight_def)

lemma session_settled_fields:
  "in_flight (initializeApp_resume (fst (initializeSession_settled r s))
      (snd (initializeSession_settled r s))) = in_flight s"
  "isProcessing (initializeApp_resume (fst (initializeSession_settled r s))
      (snd (initializeSession_settled r s))) = isProcessing s"
  by (simp_all add: initializeSession_settled_def initializeApp_resume_def showToast_def
      in_flight_def split: response.splits json.splits)

lemma exclusive_step: "exclusive s \<Longrightarrow> exclusive (step e s)"
proof (cases e)
  case DomReady
  assume "exclusive s"
  with DomReady show ?thesis by (simp add: exclusive_def initializeApp_fields)
next
  case (SessionReply i r)
  assume "exclusive s"
  with SessionReply show ?thesis
    by (simp add: exclusive_def case_prod_unfold session_settled_fields settle_init)
next
  case (FileInputChange files)
  assume "exclusive s"
  with FileInputChange show ?thesis by (simp add: exclusive_handleFileUpload)
next
  case (Drop files)
  assume "exclusive s"
  with Drop show ?thesis by (simp add: exclusive_handleFileUpload)
next
  case (UploadReply i r)
  assume "exclusive s"
  with UploadReply show ?thesis
    by (simp add: exclusive_def [of "handleFileUpload_resume _ _"] settle_processing)
next
  case (TimeoutFired i)
  assume "exclusive s"
  with TimeoutFired show ?thesis
    by (simp add: exclusive_def in_flight_def timeout_callback_def showWelcomeMessage_def
        switchScreen_def addMessage_def)
next
  case (InputTyped t)
  assume "exclusive s"
  with InputTyped show ?thesis by (simp add: exclusive_def in_flight_def)
next
  case SendClick
  assume "exclusive s"
  with SendClick show ?thesis by (simp add: exclusive_handleSendMessage)
next
  case (ChatReply i r)
  assume "exclusive s"
  with ChatReply show ?thesis
    by (simp add: exclusive_def [of "handleSendMessage_resume _ _"] settle_processing)
next
  case (ClearClick c)
  assume "exclusive s"
  with ClearClick show ?thesis
    by (simp add: exclusive_def in_flight_def clearChat_def showToast_def)
next
  case (ToastRemoved i)
  assume "exclusive s"
  with ToastRemoved show ?thesis by (simp add: exclusive_def in_flight_def)
qed


text \<open>The concrete states, written out.\<close>

lemma ready_eq:
  "ready = (fresh (Some ''abc''))
     \<lparr>sessionId := Some ''abc'', toasts := [(''Welcome to Smart Tutor AI!'', Success)],
      toastContainer := [0]\<rparr>"
  by (simp add: ready_def initializeApp_def initializeSession_def initializeApp_resume_def
      truthy_def showToast_def fresh_def Let_def sample_env_def count_injected_plain)





text \<open>
  In an environment in which no text brings an element with the id, the page stays free
  of stray carriers: along every sequence of events from a state with no pending upload
  or chat request and no carrier, no node carries the id whenever the busy flag is clear.
\<close>

lemma take_first_id_inert:
  "list_all inert es \<Longrightarrow>
   take_first_id es =
     (if TypingIndicator \<in> set es then Some (remove1 TypingIndicator es) else None)"
  by (induction es rule: take_first_id.induct) auto

lemma removeTypingIndicator_calm:
  assumes "calm s"
  shows "removeTypingIndicator s =
     s\<lparr>chatMessages := remove1 TypingIndicator (chatMessages s)\<rparr>"
proof -
  from assms have t: "take_first_toast_id (toastContainer s) = None"
    by (simp add: calm_def take_first_toast_id_none)
  from assms have e: "take_first_id (chatMessages s) =
     (if TypingIndicator \<in> set (chatMessages s)
      then Some (remove1 TypingIndicator (chatMessages s)) else None)"
    by (simp add: calm_def take_first_id_inert)
  show ?thesis
    by (simp add: removeTypingIndicator_def t e remove1_idem)
qed

lemma list_all_remove1: "list_all P xs \<Longrightarrow> list_all P (remove1 x xs)"
  by (induction xs) auto

lemma count_remove1:
  "length (filter (\<lambda>e. e = x) (remove1 x xs)) = length (filter (\<lambda>e. e = x) xs) - 1"
  by (induction xs) auto

lemma calm_showToast: "calm s \<Longrightarrow> calm (showToast m t s)"
  by (simp add: calm_def showToast_def plain_env_def)

lemma calm_chat_resume:
  assumes "calm s"
  shows "calm (handleSendMessage_resume outcome s)"
    and "indicators (handleSendMessage_resume outcome s) = indicators s - 1"
    and "pending_chats (handleSendMessage_resume outcome s) = pending_chats s"
proof -
  note r = removeTypingIndicator_calm [OF assms]
  from assms show "calm (handleSendMessage_resume outcome s)"
    by (simp add: handleSendMessage_resume_def Let_def r addMessage_def showToast_def
        calm_def plain_env_def list_all_remove1 split: sum.splits option.splits)
  show "indicators (handleSendMessage_resume outcome s) = indicators s - 1"
    by (simp add: handleSendMessage_resume_def Let_def r addMessage_def showToast_def
        indicators_def count_remove1 split: sum.splits option.splits)
  show "pending_chats (handleSendMessage_resume outcome s) = pending_chats s"
    by (simp add: pending_chats_def)
qed

lemma calm_upload_resume:
  "calm s \<Longrightarrow> calm (handleFileUpload_resume outcome s)"
  "indicators (handleFileUpload_resume outcome s) = indicators s"
  "pending_chats (handleFileUpload_resume outcome s) = pending_chats s"
  by (cases outcome; simp add: upload_resume_ok upload_resume_failed calm_def plain_env_def
      indicators_def pending_chats_def)+

lemma idle_no_pending_chat: "in_flight s = [] \<Longrightarrow> pending_chats s = 0"
  by (auto simp add: in_flight_def pending_chats_def filter_empty_conv)

lemma indicators_0: "indicators s = 0 \<longleftrightarrow> TypingIndicator \<notin> set (chatMessages s)"
  by (auto simp add: indicators_def filter_empty_conv)

lemma tidy_handleFileUpload:
  assumes "tidy s"
  shows "tidy (handleFileUpload files s)"
proof -
  from assms have c: "calm s" by (simp add: tidy_def)
  have "calm (handleFileUpload files s)
      \<and> indicators (handleFileUpload files s) = indicators s
      \<and> pending_chats (handleFileUpload files s) = pending_chats s"
  proof (cases "isProcessing s")
    case True
    with c show ?thesis by (simp add: handleFileUpload_busy)
  next
    case False
    show ?thesis
    proof (cases "validateFiles files = []")
      case invalid: False
      with False c show ?thesis
        by (auto simp add: handleFileUpload_invalid indicators_def pending_chats_def calm_def
            plain_env_def list_all_iff)
    next
      case valid: True
      show ?thesis
      proof (cases "truthy (sessionId s)")
        case True
        with False valid c show ?thesis
          by (simp add: handleFileUpload_sent indicators_def pending_chats_def calm_def)
      next
        case no: False
        have "calm (showToast ''No active session. Please refresh the page.'' Error
            (s\<lparr>isProcessing := True, currentFiles := files, uploadIdle_hidden := True,
               uploadProcessing_hidden := False, uploadZone_pointerEvents := PointerNone,
               progressInterval := True\<rparr>))"
          using c by (simp add: calm_def showToast_def plain_env_def)
        with False valid no show ?thesis
          by (simp add: handleFileUpload_def Let_def uploadFiles_def calm_upload_resume)
            (simp add: indicators_def pending_chats_def showToast_def)
      qed
    qed
  qed
  with assms show ?thesis
    by (simp add: tidy_def exclusive_handleFileUpload)
qed

lemma tidy_handleSendMessage:
  assumes "tidy s"
  shows "tidy (handleSendMessage s)"
proof (cases "trim (messageInput s) = [] \<or> isProcessing s")
  case True
  with assms show ?thesis by (simp add: handleSendMessage_dropped)
next
  case False
  from assms have c: "calm s" by (simp add: tidy_def)
  from assms have ex: "exclusive (handleSendMessage s)"
    by (simp add: tidy_def exclusive_handleSendMessage)
  from assms False have "in_flight s = []"
    by (auto simp add: tidy_def exclusive_def)
  with assms have none: "indicators s = 0"
    using idle_no_pending_chat [of s] by (simp add: tidy_def)
  have "calm (handleSendMessage s)
      \<and> indicators (handleSendMessage s) \<le> pending_chats (handleSendMessage s)"
  proof (cases "length (trim (messageInput s)) > MAX_MESSAGE_LENGTH")
    case True
    with False assms show ?thesis
      by (simp add: handleSendMessage_too_long calm_showToast tidy_def)
        (simp add: showToast_def indicators_def pending_chats_def)
  next
    case short: False
    show ?thesis
    proof (cases "truthy (sessionId s)")
      case True
      with False short assms show ?thesis
        by (simp add: handleSendMessage_sent tidy_def indicators_def pending_chats_def
            calm_def plain_env_def)
    next
      case no: False
      define s1 where "s1 = showToast ''No active session. Please refresh the page.'' Error
         (s\<lparr>isProcessing := True, sendBtn_disabled := True, messageInput := [],
            chatMessages := chatMessages s @
              [Message User (trim (messageInput s)) []
                 (messageIds (env s) User (trim (messageInput s)) []),
               TypingIndicator]\<rparr>)"
      have c1: "calm s1"
        using c by (simp add: s1_def calm_def showToast_def plain_env_def)
      have i1: "indicators s1 = Suc (indicators s)"
        by (simp add: s1_def showToast_def indicators_def)
      from False short no have "handleSendMessage s = handleSendMessage_resume (Inr None) s1"
        by (simp add: handleSendMessage_no_session s1_def)
      with c1 i1 none show ?thesis
        by (simp add: calm_chat_resume)
    qed
  qed
  with ex show ?thesis by (simp add: tidy_def)
qed

lemma settle_counts:
  "calm (settle i s) = calm s"
  "indicators (settle i s) = indicators s"
  "awaits op i s \<Longrightarrow> op \<noteq> PendingChat \<Longrightarrow> pending_chats (settle i s) = pending_chats s"
  "awaits PendingChat i s \<Longrightarrow> pending_chats s = Suc (pending_chats (settle i s))"
  by (simp_all add: settle_def indicators_def pending_chats_def awaits_def calm_def
      filter_remove_nth_out filter_remove_nth_in)

lemma list_all_remove_nth: "list_all P xs \<Longrightarrow> list_all P (remove_nth i xs)"
  by (auto simp add: remove_nth_def list_all_iff dest: in_set_takeD in_set_dropD)

lemma tidy_step:
  assumes "tidy s"
  shows "tidy (step e s)"
proof -
  from assms have ex: "exclusive (step e s)"
    by (simp add: tidy_def exclusive_step)
  from assms have c: "calm s" and le: "indicators s \<le> pending_chats s"
    by (simp_all add: tidy_def)
  have "calm (step e s) \<and> indicators (step e s) \<le> pending_chats (step e s)"
  proof (cases e)
    case DomReady
    with c le show ?thesis
      by (simp add: initializeApp_def initializeSession_def Let_def
          initializeApp_resume_def showToast_def indicators_def pending_chats_def calm_def
          plain_env_def)
  next
    case (SessionReply i r)
    with c le settle_counts(1,2) [of i s] settle_counts(3) [of PendingInit i s] show ?thesis
      by (simp add: case_prod_unfold initializeSession_settled_def
          initializeApp_resume_def showToast_def indicators_def pending_chats_def calm_def
          plain_env_def split: response.splits json.splits)
  next
    case (FileInputChange files)
    with assms tidy_handleFileUpload [of s files] show ?thesis by (simp add: tidy_def)
  next
    case (Drop files)
    with assms tidy_handleFileUpload [of s files] show ?thesis by (simp add: tidy_def)
  next
    case (UploadReply i r)
    with c le settle_counts(1,2) [of i s] settle_counts(3) [of PendingUpload i s] show ?thesis
      by (simp add: calm_upload_resume)
  next
    case (TimeoutFired i)
    with c le show ?thesis
      by (simp add: timeout_callback_def showWelcomeMessage_def switchScreen_def
          addMessage_def indicators_def pending_chats_def calm_def plain_env_def)
  next
    case (InputTyped t)
    with c le show ?thesis by (simp add: indicators_def pending_chats_def calm_def)
  next
    case SendClick
    with assms tidy_handleSendMessage [of s] show ?thesis by (simp add: tidy_def)
  next
    case (ChatReply i r)
    with c le settle_counts(1,2) [of i s] settle_counts(4) [of i s] show ?thesis
      by (auto simp add: calm_chat_resume)
  next
    case (ClearClick confirmed)
    with c le show ?thesis
      by (simp add: clearChat_def showToast_def indicators_def pending_chats_def calm_def
          plain_env_def)
  next
    case (ToastRemoved i)
    with c le show ?thesis
      by (simp add: indicators_def pending_chats_def calm_def list_all_remove_nth)
  qed
  with ex show ?thesis by (simp add: tidy_def)
qed

lemma tidy_run: "tidy s \<Longrightarrow> tidy (run evs s)"
  unfolding run_def by (induction evs arbitrary: s) (simp_all add: tidy_step)

lemma inert_no_carrier:
  "list_all inert es \<Longrightarrow> TypingIndicator \<notin> set es \<Longrightarrow> list_all (\<lambda>e. \<not> carrier e) es"
  by (induction es rule: take_first_id.induct) auto

lemma no_carrier_inert: "list_all (\<lambda>e. \<not> carrier e) es \<Longrightarrow> list_all inert es"
  by (induction es rule: take_first_id.induct) auto

lemma no_carrier_no_indicator:
  "list_all (\<lambda>e. \<not> carrier e) es \<Longrightarrow> TypingIndicator \<notin> set es"
  by (induction es rule: take_first_id.induct) auto

lemma no_carrier_kept:
  assumes "in_flight s = []" and "no_carrier s" and "plain_env (env s)"
    and "\<not> isProcessing (run evs s)"
  shows "no_carrier (run evs s)"
proof -
  from assms(1,2,3) have "tidy s"
    using indicators_0 [of s]
    by (simp add: tidy_def exclusive_def calm_def no_carrier_def no_carrier_inert
        no_carrier_no_indicator)
  then have t: "tidy (run evs s)"
    by (rule tidy_run)
  with assms(4) have "in_flight (run evs s) = []"
    by (auto simp add: tidy_def exclusive_def)
  with t have "TypingIndicator \<notin> set (chatMessages (run evs s))"
    using idle_no_pending_chat [of "run evs s"] indicators_0 [of "run evs s"]
    by (simp add: tidy_def)
  with t show ?thesis
    by (simp add: tidy_def calm_def no_carrier_def inert_no_carrier)
qed

subsection \<open>Upload validation\<close>

text \<open>
  Claim C2. Validation passes (\<open>validateFiles\<close> returns no message) exactly when every
  selected file has type \<open>application/pdf\<close> and a size of at most 10 MiB. When it does
  not pass, \<open>handleFileUpload\<close> issues no request, leaves nothing pending and does not
  touch the busy flag, whatever valid files the selection also holds.
\<close>

theorem validation_all_or_nothing:
  "(validateFiles files = [] \<longleftrightarrow>
      (\<forall>f \<in> set files. file_type f = ''application/pdf'' \<and> file_size f \<le> 10 * 1024 * 1024))
   \<and> (validateFiles files \<noteq> [] \<longrightarrow>
        requests (handleFileUpload files s) = requests s
        \<and> pending (handleFileUpload files s) = pending s
        \<and> isProcessing (handleFileUpload files s) = isProcessing s)"
proof -
  have "validateFiles files \<noteq> [] \<Longrightarrow> requests (handleFileUpload files s) = requests s
        \<and> pending (handleFileUpload files s) = pending s
        \<and> isProcessing (handleFileUpload files s) = isProcessing s"
    by (cases "isProcessing s") (simp_all add: handleFileUpload_busy handleFileUpload_invalid)
  then show ?thesis
    by (simp add: validateFiles_Nil_iff MAX_FILE_SIZE_def)
qed

theorem validation_all_or_nothing_witness:
  "validateFiles [pdf5] = []
   \<and> file_type pdf5 = ''application/pdf'' \<and> file_size pdf5 \<le> 10 * 1024 * 1024
   \<and> validateFiles [pdf5, docx] \<noteq> []
   \<and> requests (handleFileUpload [pdf5, docx] (fresh None)) = []"
  using validation_all_or_nothing [of "[pdf5]" "fresh None"]
    validation_all_or_nothing [of "[pdf5, docx]" "fresh None"]
  by (simp add: pdf5_def docx_def fresh_def)

subsection \<open>Chat validation\<close>

text \<open>
  Claim C3, as stated: for every message string that is empty after trimming or longer
  than 2000 characters the chat request is never sent, and a violated length limit
  raises a warning. The script measures the length after trimming, and it tests the busy
  flag before the length. A message of one letter and 2000 spaces (2001 characters) is
  therefore sent, as the letter alone; and 2001 letters submitted while an earlier send
  is still pending raise no warning at all.
\<close>

theorem padded_message_sent_and_busy_long_message_silent:
  "length padded_input > 2000
   \<and> requests (run [InputTyped padded_input, SendClick] ready) = [ChatReq ''abc'' ''a'']
   \<and> chatMessages (run [InputTyped padded_input, SendClick] ready) =
       [Message User ''a'' [] 0, TypingIndicator]
   \<and> length (trim long_input) > 2000
   \<and> isProcessing (run [InputTyped ''hi'', SendClick, InputTyped long_input] ready)
   \<and> toasts (run [InputTyped ''hi'', SendClick, InputTyped long_input, SendClick] ready) =
       toasts (run [InputTyped ''hi'', SendClick, InputTyped long_input] ready)"
proof -
  have a: "trim padded_input = ''a''"
    by (simp add: padded_input_def trim_padded isWhiteSpace_def)
  have b: "trim long_input = long_input"
    by (simp add: long_input_def trim_letters isWhiteSpace_def)
  have c: "trim ''hi'' = ''hi''"
    by (simp add: trim_def isWhiteSpace_def)
  have s1: "handleSendMessage (ready\<lparr>messageInput := padded_input\<rparr>) =
     ready\<lparr>isProcessing := True, sendBtn_disabled := True,
       chatMessages := [Message User ''a'' [] 0, TypingIndicator],
       messageInput := [],
       requests := [ChatReq ''abc'' ''a''],
       pending := [PendingChat]\<rparr>"
    using handleSendMessage_sent [of "ready\<lparr>messageInput := padded_input\<rparr>"]
    by (simp add: a ready_eq fresh_def truthy_def MAX_MESSAGE_LENGTH_def sample_env_def)
  have s2: "handleSendMessage (ready\<lparr>messageInput := ''hi''\<rparr>) =
     ready\<lparr>isProcessing := True, sendBtn_disabled := True,
       chatMessages := [Message User ''hi'' [] 0, TypingIndicator],
       messageInput := [],
       requests := [ChatReq ''abc'' ''hi''],
       pending := [PendingChat]\<rparr>"
    using handleSendMessage_sent [of "ready\<lparr>messageInput := ''hi''\<rparr>"]
    by (simp add: c ready_eq fresh_def truthy_def MAX_MESSAGE_LENGTH_def sample_env_def)
  show ?thesis
    apply (simp add: run_def s1 s2 b)
    apply (simp add: padded_input_def long_input_def handleSendMessage_dropped)
    done
qed

text \<open>
  Claim C3, amended: when the trimmed input is empty or longer than 2000 characters,
  \<open>handleSendMessage\<close> sends no request, leaves nothing pending and appends nothing to
  the transcript; for an empty one it changes nothing at all; and when the trimmed input
  is longer than 2000 characters while the busy flag is clear, its only effect is one
  warning toast.
\<close>

theorem invalid_message_not_sent:
  "((trim (messageInput s) = [] \<or> length (trim (messageInput s)) > 2000) \<longrightarrow>
      requests (handleSendMessage s) = requests s
      \<and> pending (handleSendMessage s) = pending s
      \<and> chatMessages (handleSendMessage s) = chatMessages s
      \<and> isProcessing (handleSendMessage s) = isProcessing s)
   \<and> (trim (messageInput s) = [] \<longrightarrow> handleSendMessage s = s)
   \<and> (length (trim (messageInput s)) > 2000 \<and> \<not> isProcessing s \<longrightarrow>
        handleSendMessage s =
          s\<lparr>toasts := toasts s @ [(''Message exceeds 2000 characters'', Warning)],
            toastContainer := toastContainer s @
              [toastIds (env s) ''Message exceeds 2000 characters'']\<rparr>)"
proof -
  have long: "handleSendMessage s =
          s\<lparr>toasts := toasts s @ [(''Message exceeds 2000 characters'', Warning)],
            toastContainer := toastContainer s @
              [toastIds (env s) ''Message exceeds 2000 characters'']\<rparr>"
    if "length (trim (messageInput s)) > 2000" "\<not> isProcessing s"
    using that by (simp add: handleSendMessage_too_long MAX_MESSAGE_LENGTH_def showToast_def)
  have empty: "handleSendMessage s = s" if "trim (messageInput s) = []"
    using that by (simp add: handleSendMessage_dropped)
  have "requests (handleSendMessage s) = requests s
      \<and> pending (handleSendMessage s) = pending s
      \<and> chatMessages (handleSendMessage s) = chatMessages s
      \<and> isProcessing (handleSendMessage s) = isProcessing s"
    if "trim (messageInput s) = [] \<or> length (trim (messageInput s)) > 2000"
  proof (cases "trim (messageInput s) = [] \<or> isProcessing s")
    case True
    then show ?thesis by (simp add: handleSendMessage_dropped)
  next
    case False
    with that long show ?thesis by simp
  qed
  with long empty show ?thesis by blast
qed

theorem invalid_message_not_sent_witness:
  "trim (messageInput ready) = [] \<and> handleSendMessage ready = ready
   \<and> length (trim (messageInput (step (InputTyped long_input) ready))) > 2000
   \<and> \<not> isProcessing (step (InputTyped long_input) ready)
   \<and> requests (handleSendMessage (step (InputTyped long_input) ready)) = []
   \<and> chatMessages (handleSendMessage (step (InputTyped long_input) ready)) = []
   \<and> toasts (handleSendMessage (step (InputTyped long_input) ready)) =
       [(''Welcome to Smart Tutor AI!'', Success),
        (''Message exceeds 2000 characters'', Warning)]"
  using invalid_message_not_sent [of "step (InputTyped long_input) ready"]
    invalid_message_not_sent [of ready]
  by (simp add: ready_eq fresh_def long_input_def trim_letters isWhiteSpace_def trim_def)

subsection \<open>Chat failures and empty answers\<close>

text \<open>
  What a failed chat request leaves behind, whatever the page holds: the messages of the
  transcript are the old ones followed by the user's message and the fixed
  connection-error bot message without sources, one error toast has been added, exactly
  one request was issued and none is pending, the busy flag is false and the send button
  enabled, and a following valid message is sent to the backend again. When no node of
  the page carries the id of the typing indicator before the send, and the user's text
  brings none, the indicator is removed as well and the two messages end the transcript
  side by side.
\<close>

lemma chat_failure_transcript:
  assumes "\<not> isProcessing s" and "trim (messageInput s) \<noteq> []"
    and "length (trim (messageInput s)) \<le> 2000" and "truthy (sessionId s)"
    and "request_failed r"
  shows "let m = trim (messageInput s);
             s' = step (ChatReply (length (pending s)) r) (step SendClick s) in
     messages_of (chatMessages s') =
       messages_of (chatMessages s) @ [(User, m, []), (Bot, connection_error, [])]
     \<and> toasts s' = toasts s @ [(''Failed to send message. Please try again.'', Error)]
     \<and> requests s' = requests s @ [ChatReq (the (sessionId s)) m]
     \<and> pending s' = pending s
     \<and> \<not> isProcessing s' \<and> \<not> sendBtn_disabled s'
     \<and> (\<forall>t. trim t \<noteq> [] \<and> length (trim t) \<le> 2000 \<longrightarrow>
           requests (step SendClick (step (InputTyped t) s')) =
             requests s' @ [ChatReq (the (sessionId s)) (trim t)])
     \<and> (no_carrier s \<and> messageIds (env s) User m [] = 0 \<longrightarrow>
           chatMessages s' = chatMessages s @
             [Message User m [] 0,
              Message Bot connection_error [] (messageIds (env s) Bot connection_error [])])"
proof -
  from assms(5) obtain e where e: "sendChatMessage_settled r = Inl e"
    using sendChatMessage_settled_failed by blast
  define m where "m = trim (messageInput s)"
  define s1 where "s1 = s\<lparr>isProcessing := True, sendBtn_disabled := True,
       chatMessages := chatMessages s @
         [Message User m [] (messageIds (env s) User m []), TypingIndicator],
       messageInput := [],
       requests := requests s @ [ChatReq (the (sessionId s)) m]\<rparr>"
  have sent: "handleSendMessage s = s1\<lparr>pending := pending s @ [PendingChat]\<rparr>"
    using assms by (simp add: handleSendMessage_sent MAX_MESSAGE_LENGTH_def s1_def m_def)
  define s' where "s' = step (ChatReply (length (pending s)) r) (step SendClick s)"
  have s': "s' = handleSendMessage_resume (Inl e) (s1\<lparr>pending := pending s\<rparr>)"
    by (simp add: s'_def sent awaits_def settle_def remove_nth_def e)
  have f: "sessionId s' = sessionId s" "messageInput s' = []"
    by (simp_all add: s' handleSendMessage_resume_def Let_def addMessage_def showToast_def
        removeTypingIndicator_def s1_def split: option.splits)
  have msgs: "messages_of (chatMessages s') =
       messages_of (chatMessages s) @ [(User, m, []), (Bot, connection_error, [])]"
    by (simp add: s' chat_resume_failed) (simp add: s1_def)
  have tst: "toasts s' = toasts s @ [(''Failed to send message. Please try again.'', Error)]"
    by (simp add: s' chat_resume_failed) (simp add: s1_def)
  have req: "requests s' = requests s @ [ChatReq (the (sessionId s)) m]" "pending s' = pending s"
    "\<not> isProcessing s'" "\<not> sendBtn_disabled s'"
    by (simp_all add: s') (simp_all add: s1_def)
  have again: "requests (step SendClick (step (InputTyped t) s')) =
             requests s' @ [ChatReq (the (sessionId s)) (trim t)]"
    if "trim t \<noteq> []" "length (trim t) \<le> 2000" for t
    using that assms(4) req(3) f handleSendMessage_sent [of "s'\<lparr>messageInput := t\<rparr>"]
    by (simp add: MAX_MESSAGE_LENGTH_def)
  have hit: "chatMessages s' = chatMessages s @
             [Message User m [] 0,
              Message Bot connection_error [] (messageIds (env s) Bot connection_error [])]"
    if "no_carrier s" "messageIds (env s) User m [] = 0"
  proof -
    have "removeTypingIndicator (s1\<lparr>pending := pending s\<rparr>) =
        s1\<lparr>pending := pending s, chatMessages := chatMessages s @ [Message User m [] 0]\<rparr>"
      using that
        removeTypingIndicator_hit [of "s1\<lparr>pending := pending s\<rparr>"
          "chatMessages s @ [Message User m [] 0]" "[]"]
      by (simp add: no_carrier_def s1_def)
    then show ?thesis
      by (simp add: s' chat_resume_failed) (simp add: s1_def)
  qed
  show ?thesis
    unfolding Let_def s'_def [symmetric] m_def [symmetric]
    using msgs tst req again hit by blast
qed

text \<open>
  Claim C4: on any chat failure the user's message is followed immediately by the error
  bot message. \<open>removeTypingIndicator\<close> is meant to take the indicator away before the
  error message is appended, but it removes whatever element comes first with the id
  \<open>typing-indicator\<close>, and \<open>addMessage\<close> writes the user's text into the page
  unescaped. For the message \<open><i id=typing-indicator></i>x\<close> and a rejected fetch,
  the element inside the user's message is removed and the indicator stays: the
  transcript ends with the user's message, the indicator, and the error message.
\<close>

theorem injected_id_keeps_indicator:
  "trim injecting_input = injecting_input
   \<and> messageIds (env ready) User injecting_input [] = 1
   \<and> chatMessages (run [InputTyped injecting_input, SendClick] ready) =
       [Message User injecting_input [] 1, TypingIndicator]
   \<and> chatMessages
       (run [InputTyped injecting_input, SendClick,
             ChatReply 0 (FetchRejected ''Failed to fetch'')] ready) =
       [Message User injecting_input [] 0, TypingIndicator,
        Message Bot connection_error [] 0]"
proof -
  have t: "trim injecting_input = injecting_input"
    by (simp add: trim_def isWhiteSpace_def injecting_input_def)
  have c: "count_injected injecting_input = 1"
    by (simp add: injecting_input_def)
  have z: "count_injected connection_error = 0"
    by (simp add: connection_error_def count_injected_plain)
  have sent: "handleSendMessage (ready\<lparr>messageInput := injecting_input\<rparr>) =
     ready\<lparr>isProcessing := True, sendBtn_disabled := True,
       chatMessages := [Message User injecting_input [] 1, TypingIndicator],
       messageInput := [],
       requests := [ChatReq ''abc'' injecting_input],
       pending := [PendingChat]\<rparr>"
    using handleSendMessage_sent [of "ready\<lparr>messageInput := injecting_input\<rparr>"]
    by (simp add: t c ready_eq fresh_def truthy_def MAX_MESSAGE_LENGTH_def sample_env_def)
      (simp add: injecting_input_def)
  have env: "env ready = sample_env"
    by (simp add: ready_eq fresh_def)
  show ?thesis
    by (simp add: t run_def sent awaits_def settle_def remove_nth_def
        sendChatMessage_settled_def chat_resume_failed removeTypingIndicator_def env)
      (simp add: sample_env_def c z)
qed





subsection \<open>Upload outcomes\<close>

text \<open>
  Claim C5. Valid files are selected from a state with the busy flag clear and a session,
  and the upload request comes back ok with a parsed body. The handler adds the success
  toast \<open>Successfully processed N file(s)\<close>; when the scheduled callback fires, the
  chat screen is the active one and the transcript has gained exactly one bot message
  without sources, whose text is the \<open>welcome_message\<close> of the body, or the fixed
  fallback text when the body has no welcome message (the field is missing or empty).
\<close>

theorem upload_success_outcome:
  assumes "\<not> isProcessing s" and "files \<noteq> []" and "validateFiles files = []"
    and "truthy (sessionId s)"
  shows "let s1 = step (FileInputChange files) s;
             s2 = step (UploadReply (length (pending s)) (Ok (Json d))) s1;
             s3 = step (TimeoutFired (length (timeouts s))) s2;
             shown = (case welcome_message d of
                        None \<Rightarrow> welcome_fallback
                      | Some w \<Rightarrow> if w = [] then welcome_fallback else w)
         in toasts s2 = toasts s @
              [(''Successfully processed '' @ showNat (length files) @ '' file(s)'', Success)]
            \<and> toasts s3 = toasts s2
            \<and> screen s3 = ChatScreen
            \<and> chatMessages s2 = chatMessages s
            \<and> chatMessages s3 = chatMessages s @
                 [Message Bot shown [] (messageIds (env s) Bot shown [])]
            \<and> timeouts s3 = timeouts s \<and> pending s3 = pending s \<and> \<not> isProcessing s3"
proof -
  have sent: "handleFileUpload files s =
     s\<lparr>isProcessing := True, currentFiles := files, uploadIdle_hidden := True,
       uploadProcessing_hidden := False, uploadZone_pointerEvents := PointerNone,
       progressInterval := True,
       requests := requests s @ [UploadReq (the (sessionId s)) files],
       pending := pending s @ [PendingUpload]\<rparr>"
    using assms by (simp add: handleFileUpload_sent)
  have wm: "or_else (welcome_message d) welcome_fallback =
      (case welcome_message d of None \<Rightarrow> welcome_fallback
       | Some w \<Rightarrow> if w = [] then welcome_fallback else w)"
    by (simp add: or_else_def truthy_def split: option.splits)
  show ?thesis
    using assms(2)
    by (simp add: Let_def sent awaits_def settle_def remove_nth_def uploadFiles_settled_def
        upload_resume_ok timeout_callback_def showWelcomeMessage_def switchScreen_def
        addMessage_def wm)
qed

theorem upload_success_outcome_witness:
  "\<not> isProcessing ready \<and> [pdf5] \<noteq> [] \<and> validateFiles [pdf5] = [] \<and> truthy (sessionId ready)
   \<and> screen (run [FileInputChange [pdf5],
         UploadReply 0 (Ok (Json \<lparr>welcome_message = Some ''Ask me anything about Chapter 3''\<rparr>)),
         TimeoutFired 0] ready) = ChatScreen
   \<and> chatMessages (run [FileInputChange [pdf5],
         UploadReply 0 (Ok (Json \<lparr>welcome_message = Some ''Ask me anything about Chapter 3''\<rparr>)),
         TimeoutFired 0] ready) = [Message Bot ''Ask me anything about Chapter 3'' [] 0]
   \<and> toasts (run [FileInputChange [pdf5],
         UploadReply 0 (Ok (Json \<lparr>welcome_message = Some ''Ask me anything about Chapter 3''\<rparr>)),
         TimeoutFired 0] ready) =
       [(''Welcome to Smart Tutor AI!'', Success), (''Successfully processed 1 file(s)'', Success)]"
proof -
  have h: "\<not> isProcessing ready" "[pdf5] \<noteq> []" "validateFiles [pdf5] = []"
    "truthy (sessionId ready)"
    by (simp_all add: ready_eq fresh_def truthy_def validateFiles_Nil_iff pdf5_def
        MAX_FILE_SIZE_def)
  have one: "showNat (Suc 0) = ''1''"
    by (simp add: showNat.simps digit_def)
  show ?thesis
    using h upload_success_outcome [OF h,
        of "\<lparr>welcome_message = Some ''Ask me anything about Chapter 3''\<rparr>"]
    by (simp add: Let_def run_def ready_eq fresh_def one sample_env_def)
qed

text \<open>
  Claim C6. Valid files are selected as above and the upload request fails. The handler
  adds one error toast that carries the message of the failure: the browser's message
  for a rejected fetch or a body that does not parse (the generic text
  \<open>Failed to upload files. Please try again.\<close> stands in for an empty one), and for a
  response that is not ok the \<open>detail\<close> of its body, or \<open>Upload failed\<close> when the body
  has none. The handler shows the idle view again (idle block visible, processing block
  hidden, pointer events on, progress 0, interval stopped), stays on the screen it was on
  with no callback scheduled, and has issued exactly one request; the busy flag is false.
\<close>

theorem upload_failure_outcome:
  assumes "\<not> isProcessing s" and "files \<noteq> []" and "validateFiles files = []"
    and "truthy (sessionId s)" and "request_failed r"
  shows "let s2 = step (UploadReply (length (pending s)) r) (step (FileInputChange files) s);
             generic = (\<lambda>m. if m = [] then ''Failed to upload files. Please try again.'' else m)
         in toasts s2 = toasts s @
              [(case r of
                  FetchRejected m \<Rightarrow> generic m
                | NotOk (JsonError m) \<Rightarrow> generic m
                | NotOk (Json errorData) \<Rightarrow>
                    (case detail errorData of
                       None \<Rightarrow> ''Upload failed''
                     | Some d \<Rightarrow> if d = [] then ''Upload failed'' else d)
                | Ok (JsonError m) \<Rightarrow> generic m,
                Error)]
            \<and> \<not> uploadIdle_hidden s2 \<and> uploadProcessing_hidden s2
            \<and> uploadZone_pointerEvents s2 = PointerAuto
            \<and> progress s2 = 0 \<and> \<not> progressInterval s2
            \<and> screen s2 = screen s \<and> timeouts s2 = timeouts s
            \<and> chatMessages s2 = chatMessages s
            \<and> requests s2 = requests s @ [UploadReq (the (sessionId s)) files]
            \<and> pending s2 = pending s \<and> \<not> isProcessing s2"
proof -
  have sent: "handleFileUpload files s =
     s\<lparr>isProcessing := True, currentFiles := files, uploadIdle_hidden := True,
       uploadProcessing_hidden := False, uploadZone_pointerEvents := PointerNone,
       progressInterval := True,
       requests := requests s @ [UploadReq (the (sessionId s)) files],
       pending := pending s @ [PendingUpload]\<rparr>"
    using assms by (simp add: handleFileUpload_sent)
  note defs = Let_def sent awaits_def settle_def remove_nth_def upload_resume_failed
    uploadFiles_settled_def request_failed_def or_else_def truthy_def
  show ?thesis
  proof (cases r)
    case (FetchRejected m)
    with assms(2) show ?thesis
      by (simp add: defs)
  next
    case (NotOk body)
    with assms(2) show ?thesis
      by (cases body) (simp_all add: defs split: option.splits)
  next
    case (Ok body)
    with assms(2,5) show ?thesis
      by (cases body) (simp_all add: defs)
  qed
qed

theorem upload_failure_outcome_witness:
  "\<not> isProcessing ready \<and> [pdf5] \<noteq> [] \<and> validateFiles [pdf5] = [] \<and> truthy (sessionId ready)
   \<and> request_failed (NotOk (Json \<lparr>detail = Some ''Session not found''\<rparr>) :: upload_data response)
   \<and> request_failed (FetchRejected ''Failed to fetch'' :: upload_data response)
   \<and> toasts (run [FileInputChange [pdf5],
         UploadReply 0 (NotOk (Json \<lparr>detail = Some ''Session not found''\<rparr>))] ready) =
       [(''Welcome to Smart Tutor AI!'', Success), (''Session not found'', Error)]
   \<and> toasts (run [FileInputChange [pdf5],
         UploadReply 0 (FetchRejected ''Failed to fetch'')] ready) =
       [(''Welcome to Smart Tutor AI!'', Success), (''Failed to fetch'', Error)]
   \<and> screen (run [FileInputChange [pdf5],
         UploadReply 0 (NotOk (Json \<lparr>detail = Some ''Session not found''\<rparr>))] ready) = UploadScreen"
proof -
  have h: "\<not> isProcessing ready" "[pdf5] \<noteq> []" "validateFiles [pdf5] = []"
    "truthy (sessionId ready)"
    by (simp_all add: ready_eq fresh_def truthy_def validateFiles_Nil_iff pdf5_def
        MAX_FILE_SIZE_def)
  have f: "request_failed (NotOk (Json \<lparr>detail = Some ''Session not found''\<rparr>) :: upload_data response)"
    "request_failed (FetchRejected ''Failed to fetch'' :: upload_data response)"
    by (simp_all add: request_failed_def)
  show ?thesis
    using h f upload_failure_outcome [OF h f(1)] upload_failure_outcome [OF h f(2)]
    by (simp add: Let_def run_def ready_eq fresh_def)
qed

text \<open>
  Outside the failures above: without a session \<open>uploadFiles\<close> shows its toast and
  returns \<open>false\<close> instead of throwing, so the handler goes on along its success
  branch. No request is issued, the success toast follows the error toast, and the
  callback that switches to the chat screen is scheduled.
\<close>

lemma upload_without_session:
  assumes "\<not> isProcessing s" and "validateFiles files = []" and "\<not> truthy (sessionId s)"
  shows "requests (handleFileUpload files s) = requests s
     \<and> pending (handleFileUpload files s) = pending s
     \<and> toasts (handleFileUpload files s) = toasts s @
         [(''No active session. Please refresh the page.'', Error),
          (''Successfully processed '' @ showNat (length files) @ '' file(s)'', Success)]
     \<and> timeouts (handleFileUpload files s) = timeouts s @ [None]
     \<and> \<not> isProcessing (handleFileUpload files s)"
  using assms
  by (simp add: handleFileUpload_def Let_def uploadFiles_def upload_resume_ok showToast_def)




subsection \<open>Session store\<close>

text \<open>
  Claim C7. \<open>initializeSession\<close> reads the stored identifier. When one is present (a
  non-empty string) it is returned and copied into the state without any request. When
  none is present exactly one init request is issued; a parsed ok response stores its
  \<open>session_id\<close> in sessionStorage and in the state and returns it. When the request
  fails (rejected fetch, response that is not ok, body that does not parse) the result
  is \<open>null\<close>: no identifier is returned, stored or set, no further request is made,
  and one error toast is shown. The script signals this failure by the \<open>null\<close>
  result and the toast.
\<close>

theorem session_get_or_create:
  "(truthy (storage s) \<longrightarrow>
      initializeSession s = (Returned (storage s), s\<lparr>sessionId := storage s\<rparr>))
   \<and> (\<not> truthy (storage s) \<longrightarrow>
      initializeSession s =
        (Fetching, s\<lparr>requests := requests s @ [SessionInitReq],
                      pending := pending s @ [PendingInit]\<rparr>))
   \<and> initializeSession_settled (Ok (Json d)) s =
        (Some (session_id d),
         s\<lparr>storage := Some (session_id d), sessionId := Some (session_id d)\<rparr>)
   \<and> (request_failed r \<longrightarrow>
        initializeSession_settled r s =
          (None, s\<lparr>toasts := toasts s @
             [(''Failed to connect to server. Please check if the backend is running.'', Error)],
             toastContainer := toastContainer s @
             [toastIds (env s)
                ''Failed to connect to server. Please check if the backend is running.'']\<rparr>))"
  by (auto simp add: initializeSession_def initializeSession_settled_def Let_def showToast_def
      request_failed_def split: response.splits json.splits)

theorem session_get_or_create_witness:
  "truthy (storage (fresh (Some ''abc'')))
   \<and> fst (initializeSession (fresh (Some ''abc''))) = Returned (Some ''abc'')
   \<and> requests (snd (initializeSession (fresh (Some ''abc'')))) = []
   \<and> \<not> truthy (storage (fresh None))
   \<and> requests (snd (initializeSession (fresh None))) = [SessionInitReq]
   \<and> request_failed (NotOk (JsonError ''Unexpected token'') :: session_data response)
   \<and> fst (initializeSession_settled (NotOk (JsonError ''Unexpected token''))
        (snd (initializeSession (fresh None)))) = None
   \<and> storage (snd (initializeSession_settled (NotOk (JsonError ''Unexpected token''))
        (snd (initializeSession (fresh None))))) = None"
  using session_get_or_create [of "fresh (Some ''abc'')"] session_get_or_create [of "fresh None"]
    session_get_or_create [of "snd (initializeSession (fresh None))" _
      "NotOk (JsonError ''Unexpected token'')"]
  by (simp add: fresh_def truthy_def request_failed_def)

subsection \<open>The busy flag\<close>



end
